theory Spec2Isabelle
  imports Complex_Main "HOL-Library.List_Lexorder" "HOL-Library.Char_ord"
begin

section \<open>Data model of app.py\<close>

text \<open>
  A \<open>datetime\<close> (and a pandas \<open>Timestamp\<close>) is a count of microseconds since the epoch,
  a calendar date is a count of days. Python floats are idealised as reals: the
  properties below only use the order and the exactness of \<open>min\<close> and \<open>max\<close>.
\<close>

type_synonym datetime = int

type_synonym date = int

definition day_us :: int where
  "day_us = 86400000000"

definition timedelta_days :: "int \<Rightarrow> int" where
  "timedelta_days d = d * day_us"

definition date_of :: "datetime \<Rightarrow> date" where
  "date_of ts = ts div day_us"

text \<open>\<open>pd.date_range(start=s, end=e, freq='D')\<close>: \<open>s\<close>, \<open>s + 1 day\<close>, ... while not after \<open>e\<close>.\<close>

definition date_range :: "datetime \<Rightarrow> datetime \<Rightarrow> datetime list" where
  "date_range start_date end_date =
     (if end_date < start_date then []
      else map (\<lambda>k. start_date + int k * day_us)
             [0 ..< nat ((end_date - start_date) div day_us) + 1])"

text \<open>One element of the list \<open>data\<close>, that is one row of the returned DataFrame.\<close>

record row =
  Date :: datetime
  Country :: string
  Fully_Vaccinated_Percentage :: real
  Partially_Vaccinated_Percentage :: real
  Doses_Administered :: int
  Daily_Vaccinations :: int
  Vaccine_Type :: string

type_synonym dataframe = "row list"

section \<open>The random source\<close>

text \<open>
  numpy's global generator is outside the repository. A run is described by the values
  its calls return: \<open>np_randint \<omega> k lo hi\<close> is what the \<open>k\<close>-th call to the generator
  returns when that call is \<open>np.random.randint(lo, hi)\<close>, and so on. The state that the
  program threads through its calls is the number of calls made so far.
\<close>

record np_random =
  np_randint :: "nat \<Rightarrow> int \<Rightarrow> int \<Rightarrow> int"
  np_normal :: "nat \<Rightarrow> real \<Rightarrow> real \<Rightarrow> real"
  np_uniform :: "nat \<Rightarrow> real \<Rightarrow> real \<Rightarrow> real"
  np_choice :: "nat \<Rightarrow> nat \<Rightarrow> real list \<Rightarrow> nat"

text \<open>
  What numpy documents of these calls: \<open>randint(lo, hi)\<close> is in \<open>[lo, hi)\<close>,
  \<open>uniform(a, b)\<close> is in \<open>[a, b)\<close>, \<open>choice\<close> returns one of the options given (here
  its index). The range of a normal deviate is stated apart, below.
\<close>

definition np_random_ok :: "np_random \<Rightarrow> bool" where
  "np_random_ok \<omega> =
     ((\<forall>k lo hi. lo < hi \<longrightarrow> lo \<le> np_randint \<omega> k lo hi \<and> np_randint \<omega> k lo hi < hi) \<and>
      (\<forall>k a b. a < b \<longrightarrow> a \<le> np_uniform \<omega> k a b \<and> np_uniform \<omega> k a b < b) \<and>
      (\<forall>k m p. 0 < m \<longrightarrow> np_choice \<omega> k m p < m))"

text \<open>
  numpy computes a normal deviate in double precision, from uniform doubles: the polar
  method of \<open>np.random.normal\<close> cannot return a value farther than about twelve
  standard deviations from the mean. Thirty is all that is needed below.
\<close>

definition np_normal_ok :: "np_random \<Rightarrow> bool" where
  "np_normal_ok \<omega> =
     (\<forall>k mu sigma. 0 \<le> sigma \<longrightarrow>
        mu - 30 * sigma \<le> np_normal \<omega> k mu sigma \<and> np_normal \<omega> k mu sigma \<le> mu + 30 * sigma)"

text \<open>Python's \<open>int(x)\<close> on a float truncates towards zero.\<close>

definition py_int :: "real \<Rightarrow> int" where
  "py_int x = (if 0 \<le> x then \<lfloor>x\<rfloor> else \<lceil>x\<rceil>)"

section \<open>generate_vaccination_data\<close>

definition countries :: "string list" where
  "countries = [''USA'', ''India'', ''Brazil'', ''UK'', ''Germany'', ''Japan'',
                ''France'', ''Italy'', ''Canada'', ''Australia'', ''South Africa'', ''Mexico'']"

definition vaccine_types :: "string list" where
  "vaccine_types = [''Pfizer'', ''Moderna'', ''AstraZeneca'', ''Sinovac'', ''Johnson&Johnson'']"

definition vaccine_probs :: "real list" where
  "vaccine_probs = [0.4, 0.3, 0.15, 0.1, 0.05]"

text \<open>The \<open>if/elif/else\<close> that picks a country's base rate; only the last branch draws.\<close>

definition pick_base_rate :: "np_random \<Rightarrow> string \<Rightarrow> nat \<Rightarrow> int \<times> nat" where
  "pick_base_rate \<omega> country n =
     (if country = ''USA'' then (75, n)
      else if country = ''India'' then (65, n)
      else if country = ''Brazil'' then (70, n)
      else (np_randint \<omega> n 60 85, n + 1))"

text \<open>The body of the inner loop: five draws, one appended row.\<close>

definition gen_row ::
  "np_random \<Rightarrow> datetime \<Rightarrow> string \<Rightarrow> int \<Rightarrow> datetime \<Rightarrow> nat \<Rightarrow> row \<times> nat" where
  "gen_row \<omega> start_date country base_rate d n =
     (let days_from_start = (d - start_date) div day_us;
          trend = real_of_int days_from_start * 0.1;
          noise = np_normal \<omega> n 0 2;
          fully_vaccinated = min 95 (real_of_int base_rate + trend + noise);
          partially_vaccinated =
            min 100 (fully_vaccinated + real_of_int (np_randint \<omega> (n + 1) 5 15))
      in (\<lparr>Date = d,
           Country = country,
           Fully_Vaccinated_Percentage = max 0 fully_vaccinated,
           Partially_Vaccinated_Percentage = max 0 partially_vaccinated,
           Doses_Administered = py_int (np_uniform \<omega> (n + 2) 100000 10000000),
           Daily_Vaccinations = py_int (np_uniform \<omega> (n + 3) 5000 500000),
           Vaccine_Type =
             vaccine_types ! np_choice \<omega> (n + 4) (length vaccine_types) vaccine_probs\<rparr>,
          n + 5))"

text \<open>\<open>for date in dates\<close>: the state is the list \<open>data\<close> and the generator's position.\<close>

fun date_loop ::
  "np_random \<Rightarrow> datetime \<Rightarrow> string \<Rightarrow> int \<Rightarrow> datetime list \<Rightarrow> dataframe \<times> nat
     \<Rightarrow> dataframe \<times> nat" where
  "date_loop \<omega> start_date country base_rate [] (data, n) = (data, n)"
| "date_loop \<omega> start_date country base_rate (d # ds) (data, n) =
     (case gen_row \<omega> start_date country base_rate d n of
        (r, n') \<Rightarrow> date_loop \<omega> start_date country base_rate ds (data @ [r], n'))"

text \<open>\<open>for country in countries\<close>.\<close>

fun country_loop ::
  "np_random \<Rightarrow> datetime \<Rightarrow> datetime list \<Rightarrow> string list \<Rightarrow> dataframe \<times> nat
     \<Rightarrow> dataframe \<times> nat" where
  "country_loop \<omega> start_date dates [] (data, n) = (data, n)"
| "country_loop \<omega> start_date dates (country # cs) (data, n) =
     (case pick_base_rate \<omega> country n of
        (base_rate, n') \<Rightarrow>
          country_loop \<omega> start_date dates cs
            (date_loop \<omega> start_date country base_rate dates (data, n')))"

text \<open>
  The body of the function, given the clock reading \<open>now\<close> and the generator's position.
  The call through the \<open>st.cache_data\<close> decorator follows.
\<close>

definition generate_vaccination_data :: "np_random \<Rightarrow> datetime \<Rightarrow> nat \<Rightarrow> dataframe \<times> nat" where
  "generate_vaccination_data \<omega> now n =
     (let end_date = now;
          start_date = end_date - timedelta_days 365;
          dates = date_range start_date end_date
      in country_loop \<omega> start_date dates countries ([], n))"

text \<open>
  \<open>@st.cache_data(ttl=3600)\<close>: the cache holds the table last computed and the time it
  was stored. A call within the hour returns that table, draws nothing and does not
  read the clock for the window; any other call runs the body and stores its table.
\<close>

type_synonym cache = "(datetime \<times> dataframe) option"

definition ttl_us :: int where
  "ttl_us = 3600 * 1000000"

definition cache_hit :: "datetime \<Rightarrow> cache \<Rightarrow> bool" where
  "cache_hit now c = (case c of None \<Rightarrow> False | Some (t, df) \<Rightarrow> now < t + ttl_us)"

definition cached_generate_vaccination_data ::
  "np_random \<Rightarrow> datetime \<Rightarrow> cache \<times> nat \<Rightarrow> dataframe \<times> cache \<times> nat" where
  "cached_generate_vaccination_data \<omega> now s =
     (case s of
        (c, n) \<Rightarrow>
          (case c of
             Some (t, df) \<Rightarrow>
               if now < t + ttl_us then (df, c, n)
               else (case generate_vaccination_data \<omega> now n of
                       (df', n') \<Rightarrow> (df', Some (now, df'), n'))
           | None \<Rightarrow>
               (case generate_vaccination_data \<omega> now n of
                  (df', n') \<Rightarrow> (df', Some (now, df'), n'))))"

section \<open>fetch_real_vaccination_data\<close>

text \<open>A raised exception is a value; the bare \<open>except:\<close> catches every one of them.\<close>

datatype py_error = Exception string

text \<open>
  The body of the function, with the callee it calls in the \<open>try\<close> block and again in the
  handler as a computation that returns a table or raises, on a state (the cache and
  the position of the generator). The list is that of the warnings shown so far.
\<close>

definition try_generate ::
  "('s \<Rightarrow> (py_error + dataframe) \<times> 's) \<Rightarrow> 's \<Rightarrow> string list
     \<Rightarrow> (py_error + dataframe) \<times> 's \<times> string list" where
  "try_generate gen s warnings =
     (case gen s of
        (Inr df, s') \<Rightarrow> (Inr df, s', warnings)
      | (Inl e, s') \<Rightarrow>
          (case gen s' of
             (res, s'') \<Rightarrow>
               (res, s'', warnings @ [''Could not fetch real-time data. Using sample data.''])))"

text \<open>
  The call \<open>generate_vaccination_data()\<close> as such a computation: neither the cache nor
  the body has a \<open>raise\<close>, and it always returns.
\<close>

definition call_generate ::
  "np_random \<Rightarrow> datetime \<Rightarrow> cache \<times> nat \<Rightarrow> (py_error + dataframe) \<times> cache \<times> nat" where
  "call_generate \<omega> now s =
     (case cached_generate_vaccination_data \<omega> now s of (df, s') \<Rightarrow> (Inr df, s'))"

definition fetch_real_vaccination_data ::
  "np_random \<Rightarrow> datetime \<Rightarrow> cache \<times> nat \<Rightarrow> string list
     \<Rightarrow> (py_error + dataframe) \<times> (cache \<times> nat) \<times> string list" where
  "fetch_real_vaccination_data \<omega> now s warnings = try_generate (call_generate \<omega> now) s warnings"

section \<open>main: filtering and the views\<close>

text \<open>
  Lines 251 to 256: the country filter, skipped when the selection is empty or holds the
  sentinel, then the date mask on the date part of the timestamps, bounds included. The
  assignment of \<open>pd.to_datetime(df['Date'])\<close> in between leaves the timestamps as they are.
\<close>

definition filter_data :: "dataframe \<Rightarrow> string list \<Rightarrow> date \<Rightarrow> date \<Rightarrow> dataframe" where
  "filter_data df selected_countries start_date end_date =
     (let df1 = (if ''All Countries'' \<notin> set selected_countries \<and> selected_countries \<noteq> []
                 then filter (\<lambda>r. Country r \<in> set selected_countries) df
                 else df);
          mask = (\<lambda>r. start_date \<le> date_of (Date r) \<and> date_of (Date r) \<le> end_date)
      in filter mask df1)"

text \<open>
  \<open>groupby('Country').last()\<close>: one row per country of the frame, the groups in the order
  of their keys, each the last row of its group (no column of a generated row is null).
\<close>

definition groupby_country_last :: "dataframe \<Rightarrow> dataframe" where
  "groupby_country_last df =
     map (\<lambda>c. last (filter (\<lambda>r. Country r = c) df)) (sort (remdups (map Country df)))"

text \<open>
  Line 330: \<open>df_filtered.sort_values('Date').groupby('Country').last().reset_index()\<close>.
  The sort is taken to be stable; pandas' default may order rows of equal timestamp
  otherwise, which the rows of one country in a generated table never have.
\<close>

definition latest_data :: "dataframe \<Rightarrow> dataframe" where
  "latest_data df_filtered = groupby_country_last (sort_key Date df_filtered)"

text \<open>Lines 404 to 418: the rows of the Global Map page, four draws each.\<close>

record geo_row =
  geo_Country :: string
  geo_Fully_Vaccinated :: int
  geo_Lat :: real
  geo_Lon :: real
  geo_Doses_Administered :: int

definition countries_geo :: "string list" where
  "countries_geo = [''USA'', ''India'', ''Brazil'', ''United Kingdom'', ''Germany'',
                    ''Japan'', ''France'', ''Italy'', ''Canada'', ''Australia'']"

definition gen_geo_row :: "np_random \<Rightarrow> string \<Rightarrow> nat \<Rightarrow> geo_row" where
  "gen_geo_row \<omega> country n =
     \<lparr>geo_Country = country,
      geo_Fully_Vaccinated = np_randint \<omega> n 50 95,
      geo_Lat = np_uniform \<omega> (n + 1) (- 50) 70,
      geo_Lon = np_uniform \<omega> (n + 2) (- 180) 180,
      geo_Doses_Administered = np_randint \<omega> (n + 3) 1000000 1000000000\<rparr>"

fun geo_loop :: "np_random \<Rightarrow> string list \<Rightarrow> geo_row list \<times> nat \<Rightarrow> geo_row list \<times> nat" where
  "geo_loop \<omega> [] (geo_data, n) = (geo_data, n)"
| "geo_loop \<omega> (country # cs) (geo_data, n) =
     geo_loop \<omega> cs (geo_data @ [gen_geo_row \<omega> country n], n + 4)"

definition global_map_data :: "np_random \<Rightarrow> nat \<Rightarrow> geo_row list \<times> nat" where
  "global_map_data \<omega> n = geo_loop \<omega> countries_geo ([], n)"

text \<open>
  The run of \<open>main\<close>: load the table (from the session, or by fetching it), filter it, and
  dispatch on the page chosen in the sidebar, on the state of the cache and of the
  generator. A view holds the data the page plots: the
  country comparison of the Overview, the rows of the Global Map, and for the other
  pages the filtered table they start from. The session keeps the clock reading whose
  formatted text the source stores in \<open>last_update\<close>.
\<close>

datatype page = Overview | Global_Map | Trends | Country_Analysis | Data_Explorer | Settings

datatype view =
  Overview_View dataframe
| Global_Map_View "geo_row list"
| Page_View dataframe

record session_state =
  vaccine_data :: "dataframe option"
  last_update :: "datetime option"

definition load_data ::
  "np_random \<Rightarrow> datetime \<Rightarrow> session_state \<Rightarrow> cache \<times> nat \<Rightarrow> string list
     \<Rightarrow> (py_error + dataframe) \<times> session_state \<times> (cache \<times> nat) \<times> string list" where
  "load_data \<omega> now st s warnings =
     (case vaccine_data st of
        None \<Rightarrow>
          (case fetch_real_vaccination_data \<omega> now s warnings of
             (Inr df, s', w') \<Rightarrow>
               (Inr df, st\<lparr>vaccine_data := Some df, last_update := Some now\<rparr>, s', w')
           | (Inl e, s', w') \<Rightarrow> (Inl e, st, s', w'))
      | Some df \<Rightarrow> (Inr df, st, s, warnings))"

definition main ::
  "np_random \<Rightarrow> datetime \<Rightarrow> page \<Rightarrow> date \<Rightarrow> date \<Rightarrow> string list \<Rightarrow> session_state
     \<Rightarrow> cache \<times> nat \<Rightarrow> string list \<Rightarrow> (py_error + view) \<times> session_state \<times> string list" where
  "main \<omega> now selected start_date end_date selected_countries st s warnings =
     (case load_data \<omega> now st s warnings of
        (Inl e, st', s', w') \<Rightarrow> (Inl e, st', w')
      | (Inr df, st', s', w') \<Rightarrow>
          (let df_filtered = filter_data df selected_countries start_date end_date
           in if selected = Overview then (Inr (Overview_View (latest_data df_filtered)), st', w')
              else if selected = Global_Map
                then (Inr (Global_Map_View (fst (global_map_data \<omega> (snd s')))), st', w')
              else (Inr (Page_View df_filtered), st', w')))"

section \<open>Positions of the draws, sample runs and sample data\<close>

text \<open>How many draws the base-rate pick of a country consumes.\<close>

definition base_draws :: "string \<Rightarrow> nat" where
  "base_draws c = (if c = ''USA'' \<or> c = ''India'' \<or> c = ''Brazil'' then 0 else 1)"

text \<open>
  Draws consumed by the first \<open>i\<close> iterations of the outer loop, each over \<open>L\<close> dates.
\<close>

definition block_off :: "nat \<Rightarrow> string list \<Rightarrow> nat \<Rightarrow> nat" where
  "block_off L cs i = sum_list (map (\<lambda>c. base_draws c + 5 * L) (take i cs))"

text \<open>The rows one iteration of the outer loop appends, started at position \<open>p\<close>.\<close>

definition country_block ::
  "np_random \<Rightarrow> datetime \<Rightarrow> datetime list \<Rightarrow> string \<Rightarrow> nat \<Rightarrow> row list" where
  "country_block \<omega> start_date dates country p =
     (case pick_base_rate \<omega> country p of
        (base_rate, q) \<Rightarrow>
          map (\<lambda>j. fst (gen_row \<omega> start_date country base_rate (dates ! j) (q + 5 * j)))
            [0 ..< length dates])"

text \<open>
  Positions in a run of the generator started at position \<open>n\<close>: where the base rate of
  the \<open>i\<close>-th country is picked, and where the five draws of its \<open>j\<close>-th row start.
\<close>

definition base_pos :: "nat \<Rightarrow> nat \<Rightarrow> nat" where
  "base_pos n i = n + block_off 366 countries i"

definition row_pos :: "nat \<Rightarrow> nat \<Rightarrow> nat \<Rightarrow> nat" where
  "row_pos n i j = base_pos n i + base_draws (countries ! i) + 5 * j"

text \<open>
  A run in which every bounded draw is the least value its call can return and every
  normal deviate is the mean.
\<close>

definition least_draws :: np_random where
  "least_draws =
     \<lparr>np_randint = (\<lambda>k lo hi. lo), np_normal = (\<lambda>k mu sigma. mu),
      np_uniform = (\<lambda>k a b. a), np_choice = (\<lambda>k m p. 0)\<rparr>"

text \<open>
  The same run with every normal deviate fifty standard deviations low, which no call
  of the sampler returns.
\<close>

definition cold_draws :: np_random where
  "cold_draws = least_draws\<lparr>np_normal := (\<lambda>k mu sigma. mu - 50 * sigma)\<rparr>"

text \<open>The same run with every integer draw one above the least value.\<close>

definition second_draws :: np_random where
  "second_draws = least_draws\<lparr>np_randint := (\<lambda>k lo hi. lo + 1)\<rparr>"

text \<open>
  Two callees: one that raises at position 0 of the generator, having consumed one
  draw, and is the call of the generator everywhere else; one that raises at every call.
\<close>

definition fails_first ::
  "np_random \<Rightarrow> datetime \<Rightarrow> cache \<times> nat \<Rightarrow> (py_error + dataframe) \<times> cache \<times> nat" where
  "fails_first \<omega> now s =
     (if snd s = 0 then (Inl (Exception ''ConnectionError''), (fst s, 1))
      else call_generate \<omega> now s)"

definition always_fails :: "cache \<times> nat \<Rightarrow> (py_error + dataframe) \<times> cache \<times> nat" where
  "always_fails s = (Inl (Exception ''MemoryError''), s)"

text \<open>A small frame: a row for a country at noon of a day.\<close>

definition sample_row :: "string \<Rightarrow> int \<Rightarrow> row" where
  "sample_row c d =
     \<lparr>Date = d * day_us + 43200000000, Country = c, Fully_Vaccinated_Percentage = 75,
      Partially_Vaccinated_Percentage = 80, Doses_Administered = 100000,
      Daily_Vaccinations = 5000, Vaccine_Type = ''Pfizer''\<rparr>"

definition sample_frame :: dataframe where
  "sample_frame =
     [sample_row ''USA'' 2, sample_row ''India'' 1, sample_row ''USA'' 1,
      sample_row ''India'' 3, sample_row ''Brazil'' 1]"

section \<open>Properties of the generator\<close>

lemma date_range_window: "length (date_range (now - timedelta_days 365) now) = 366"
  by (simp add: date_range_def timedelta_days_def day_us_def)

lemma snd_gen_row: "snd (gen_row \<omega> sd c b d n) = n + 5"
  by (simp add: gen_row_def Let_def)

lemma snd_pick_base_rate: "snd (pick_base_rate \<omega> c n) = n + base_draws c"
  by (simp add: pick_base_rate_def base_draws_def)

lemma date_loop_closed:
  "date_loop \<omega> sd c b ds (data, n) =
     (data @ map (\<lambda>j. fst (gen_row \<omega> sd c b (ds ! j) (n + 5 * j))) [0 ..< length ds],
      n + 5 * length ds)"
proof (induction ds arbitrary: data n)
  case Nil
  then show ?case by simp
next
  case (Cons d ds)
  obtain r where r: "gen_row \<omega> sd c b d n = (r, n + 5)"
    using snd_gen_row [of \<omega> sd c b d n] by (cases "gen_row \<omega> sd c b d n") simp
  show ?case
    by (simp add: r Cons.IH map_upt_Suc add.assoc del: upt_Suc)
qed

lemma country_loop_closed:
  "country_loop \<omega> sd dates cs (data, n) =
     (data @ concat (map (\<lambda>i. country_block \<omega> sd dates (cs ! i)
                               (n + block_off (length dates) cs i)) [0 ..< length cs]),
      n + block_off (length dates) cs (length cs))"
proof (induction cs arbitrary: data n)
  case Nil
  then show ?case by (simp add: block_off_def)
next
  case (Cons c cs)
  obtain b where b: "pick_base_rate \<omega> c n = (b, n + base_draws c)"
    using snd_pick_base_rate [of \<omega> c n] by (cases "pick_base_rate \<omega> c n") simp
  show ?case
    by (simp add: b date_loop_closed Cons.IH map_upt_Suc country_block_def block_off_def
        add.assoc del: upt_Suc)
qed

lemma length_country_block: "length (country_block \<omega> sd dates c p) = length dates"
  by (simp add: country_block_def split: prod.split)

lemma country_block_alt:
  "country_block \<omega> sd dates c p =
     map (\<lambda>j. fst (gen_row \<omega> sd c (fst (pick_base_rate \<omega> c p)) (dates ! j)
                      (p + base_draws c + 5 * j))) [0 ..< length dates]"
  using snd_pick_base_rate [of \<omega> c p]
  by (cases "pick_base_rate \<omega> c p") (simp add: country_block_def)

lemma length_concat_blocks:
  "(\<And>k. k < m \<Longrightarrow> length (g k) = L) \<Longrightarrow> length (concat (map g [0 ..< m])) = m * L"
  by (induction m) simp_all

lemma nth_concat_blocks:
  assumes "\<And>k. k < m \<Longrightarrow> length (g k) = L" and "i < m" and "j < L"
  shows "concat (map g [0 ..< m]) ! (i * L + j) = g i ! j"
  using assms
proof (induction m)
  case 0
  then show ?case by simp
next
  case (Suc m)
  have len: "length (concat (map g [0 ..< m])) = m * L"
    using Suc.prems(1) by (simp add: length_concat_blocks)
  show ?case
  proof (cases "i < m")
    case True
    then have "i * L + j < m * L"
      using Suc.prems(3) by (metis Suc_leI add.commute mult_Suc mult_le_mono1 nat_add_left_cancel_less order_less_le_trans)
    then show ?thesis
      using Suc True by (simp add: nth_append len)
  next
    case False
    then have "i = m" using Suc.prems(2) by simp
    then show ?thesis by (simp add: nth_append len)
  qed
qed

lemma generate_closed:
  "fst (generate_vaccination_data \<omega> now n) =
     concat (map (\<lambda>i. country_block \<omega> (now - timedelta_days 365)
                        (date_range (now - timedelta_days 365) now) (countries ! i) (base_pos n i))
               [0 ..< length countries])"
  by (simp add: generate_vaccination_data_def Let_def country_loop_closed base_pos_def
      date_range_window)

lemma nth_date_range:
  "j < 366 \<Longrightarrow> date_range (now - timedelta_days 365) now ! j =
     now - timedelta_days 365 + int j * day_us"
  by (simp add: date_range_def timedelta_days_def day_us_def)

lemma generate_nth:
  assumes "i < length countries" and "j < 366"
  shows "fst (generate_vaccination_data \<omega> now n) ! (i * 366 + j) =
     fst (gen_row \<omega> (now - timedelta_days 365) (countries ! i)
            (fst (pick_base_rate \<omega> (countries ! i) (base_pos n i)))
            (now - timedelta_days 365 + int j * day_us) (row_pos n i j))"
proof -
  let ?g = "\<lambda>i. country_block \<omega> (now - timedelta_days 365)
                  (date_range (now - timedelta_days 365) now) (countries ! i) (base_pos n i)"
  have "concat (map ?g [0 ..< length countries]) ! (i * 366 + j) = ?g i ! j"
    using assms by (intro nth_concat_blocks) (simp_all add: length_country_block date_range_window)
  then show ?thesis
    using assms
    by (simp add: generate_closed country_block_alt date_range_window nth_date_range row_pos_def)
qed

lemma length_generate: "length (fst (generate_vaccination_data \<omega> now n)) = 4392"
  by (simp add: generate_closed length_concat_blocks [where L = 366] length_country_block
      date_range_window countries_def)

lemma least_draws_ok: "np_random_ok least_draws"
  by (simp add: np_random_ok_def least_draws_def)

lemma randint_range:
  "np_random_ok \<omega> \<Longrightarrow> lo < hi \<Longrightarrow> lo \<le> np_randint \<omega> k lo hi \<and> np_randint \<omega> k lo hi < hi"
  by (simp add: np_random_ok_def)

lemma gen_row_bounds:
  assumes "np_random_ok \<omega>"
  shows "0 \<le> Fully_Vaccinated_Percentage (fst (gen_row \<omega> sd c b d k)) \<and>
         Fully_Vaccinated_Percentage (fst (gen_row \<omega> sd c b d k)) \<le> 95 \<and>
         Fully_Vaccinated_Percentage (fst (gen_row \<omega> sd c b d k))
           \<le> Partially_Vaccinated_Percentage (fst (gen_row \<omega> sd c b d k)) \<and>
         Partially_Vaccinated_Percentage (fst (gen_row \<omega> sd c b d k)) \<le> 100"
proof -
  have "5 \<le> np_randint \<omega> (k + 1) 5 15"
    using randint_range [OF assms, of 5 15 "k + 1"] by simp
  then have "0 \<le> real_of_int (np_randint \<omega> (k + 1) 5 15)" by simp
  then show ?thesis
    by (simp add: gen_row_def Let_def min_def max_def)
qed

lemma generate_rows:
  assumes "r \<in> set (fst (generate_vaccination_data \<omega> now n))"
  shows "\<exists>c b d k. r = fst (gen_row \<omega> (now - timedelta_days 365) c b d k)"
  using assms by (auto simp add: generate_closed country_block_alt)

text \<open>
  Claim C1. Every row of the generated table has its fully vaccinated percentage in
  \<open>[0, 95]\<close> and its partially vaccinated percentage between that value and \<open>100\<close>,
  whatever the draws.
\<close>

theorem generated_percentages_bounded:
  assumes "np_random_ok \<omega>" and "r \<in> set (fst (generate_vaccination_data \<omega> now n))"
  shows "0 \<le> Fully_Vaccinated_Percentage r \<and> Fully_Vaccinated_Percentage r \<le> 95 \<and>
         Fully_Vaccinated_Percentage r \<le> Partially_Vaccinated_Percentage r \<and>
         Partially_Vaccinated_Percentage r \<le> 100"
proof -
  obtain c b d k where "r = fst (gen_row \<omega> (now - timedelta_days 365) c b d k)"
    using generate_rows [OF assms(2)] by blast
  then show ?thesis
    using gen_row_bounds [OF assms(1)] by simp
qed

lemma first_row_least:
  "fst (generate_vaccination_data least_draws 0 0) ! 0 =
     \<lparr>Date = - 365 * day_us, Country = ''USA'', Fully_Vaccinated_Percentage = 75,
      Partially_Vaccinated_Percentage = 80, Doses_Administered = 100000,
      Daily_Vaccinations = 5000, Vaccine_Type = ''Pfizer''\<rparr>"
  using generate_nth [of 0 0 least_draws 0 0]
  by (simp add: countries_def pick_base_rate_def gen_row_def least_draws_def py_int_def
      vaccine_types_def timedelta_days_def day_us_def)

theorem generated_percentages_bounded_witness:
  "np_random_ok least_draws \<and>
   fst (generate_vaccination_data least_draws 0 0) ! 0
     \<in> set (fst (generate_vaccination_data least_draws 0 0)) \<and>
   Fully_Vaccinated_Percentage (fst (generate_vaccination_data least_draws 0 0) ! 0) = 75 \<and>
   Partially_Vaccinated_Percentage (fst (generate_vaccination_data least_draws 0 0) ! 0) = 80 \<and>
   0 \<le> Fully_Vaccinated_Percentage (fst (generate_vaccination_data least_draws 0 0) ! 0) \<and>
   Fully_Vaccinated_Percentage (fst (generate_vaccination_data least_draws 0 0) ! 0) \<le> 95 \<and>
   Fully_Vaccinated_Percentage (fst (generate_vaccination_data least_draws 0 0) ! 0)
     \<le> Partially_Vaccinated_Percentage (fst (generate_vaccination_data least_draws 0 0) ! 0) \<and>
   Partially_Vaccinated_Percentage (fst (generate_vaccination_data least_draws 0 0) ! 0) \<le> 100"
proof -
  have mem: "fst (generate_vaccination_data least_draws 0 0) ! 0
      \<in> set (fst (generate_vaccination_data least_draws 0 0))"
    by (simp add: length_generate)
  show ?thesis
    using generated_percentages_bounded [OF least_draws_ok mem] mem least_draws_ok
    by (simp add: first_row_least)
qed

lemma gen_row_key:
  "Country (fst (gen_row \<omega> sd c b d k)) = c \<and> Date (fst (gen_row \<omega> sd c b d k)) = d"
  by (simp add: gen_row_def Let_def)

lemma country_block_keys:
  "map (\<lambda>r. (Country r, Date r)) (country_block \<omega> sd dates c p) = map (Pair c) dates"
proof -
  have "map (Pair c) dates = map (Pair c) (map ((!) dates) [0 ..< length dates])"
    by (simp only: map_nth)
  then show ?thesis
    by (simp add: country_block_alt gen_row_key o_def)
qed

lemma concat_blocks_product:
  "concat (map (\<lambda>i. map (Pair (cs ! i)) ds) [0 ..< length cs]) = List.product cs ds"
proof (induction cs)
  case Nil
  then show ?case by simp
next
  case (Cons c cs)
  then show ?case by (simp add: map_upt_Suc del: upt_Suc)
qed

lemma distinct_date_range: "distinct (date_range s e)"
  by (auto simp add: date_range_def distinct_map day_us_def intro!: inj_onI)

lemma distinct_countries: "distinct countries"
  by (simp add: countries_def)

lemma generate_keys:
  "map (\<lambda>r. (Country r, Date r)) (fst (generate_vaccination_data \<omega> now n)) =
     List.product countries (date_range (now - timedelta_days 365) now)"
  by (simp add: generate_closed map_concat o_def country_block_keys concat_blocks_product)

text \<open>
  Claim C3. The generated table has exactly one row for each pair of a country and a
  timestamp of the window, in the order of the two loops: its length is the number of
  countries times the number of timestamps \<open>pd.date_range\<close> yields from 365 days ago
  to now, both ends included, that is 12 times 366.
\<close>

theorem generated_row_count:
  "length (fst (generate_vaccination_data \<omega> now n)) =
     length countries * length (date_range (now - timedelta_days 365) now) \<and>
   length (date_range (now - timedelta_days 365) now) = 366 \<and>
   length (fst (generate_vaccination_data \<omega> now n)) = 4392 \<and>
   map (\<lambda>r. (Country r, Date r)) (fst (generate_vaccination_data \<omega> now n)) =
     List.product countries (date_range (now - timedelta_days 365) now) \<and>
   distinct (map (\<lambda>r. (Country r, Date r)) (fst (generate_vaccination_data \<omega> now n)))"
proof -
  have "length (fst (generate_vaccination_data \<omega> now n)) =
      length (map (\<lambda>r. (Country r, Date r)) (fst (generate_vaccination_data \<omega> now n)))"
    by simp
  also have "\<dots> = length countries * length (date_range (now - timedelta_days 365) now)"
    unfolding generate_keys by simp
  finally have len: "length (fst (generate_vaccination_data \<omega> now n)) =
      length countries * length (date_range (now - timedelta_days 365) now)" .
  have dist: "distinct (map (\<lambda>r. (Country r, Date r)) (fst (generate_vaccination_data \<omega> now n)))"
    unfolding generate_keys by (simp add: distinct_product distinct_countries distinct_date_range)
  show ?thesis
    using len dist by (simp add: generate_keys date_range_window length_generate)
qed

lemma gen_row_fields:
  "Fully_Vaccinated_Percentage (fst (gen_row \<omega> sd c b d k)) =
     max 0 (min 95 (real_of_int b + real_of_int ((d - sd) div day_us) * 0.1 + np_normal \<omega> k 0 2)) \<and>
   Partially_Vaccinated_Percentage (fst (gen_row \<omega> sd c b d k)) =
     max 0 (min 100 (min 95 (real_of_int b + real_of_int ((d - sd) div day_us) * 0.1
                              + np_normal \<omega> k 0 2)
                     + real_of_int (np_randint \<omega> (k + 1) 5 15)))"
  by (simp add: gen_row_def Let_def)

lemma days_from_start: "(sd + int j * day_us - sd) div day_us = int j"
  by (simp add: day_us_def)

lemma least_draws_sel:
  "np_randint least_draws k lo hi = lo" "np_normal least_draws k mu sigma = mu"
  "np_uniform least_draws k a b = a" "np_choice least_draws k m p = 0"
  by (simp_all add: least_draws_def)

lemma cold_draws_sel:
  "np_randint cold_draws k lo hi = lo" "np_normal cold_draws k mu sigma = mu - 50 * sigma"
  "np_uniform cold_draws k a b = a" "np_choice cold_draws k m p = 0"
  by (simp_all add: cold_draws_def least_draws_def)

lemma least_draws_normal_ok: "np_normal_ok least_draws"
  by (simp add: np_normal_ok_def least_draws_sel)

lemma normal_range:
  "np_normal_ok \<omega> \<Longrightarrow> - 60 \<le> np_normal \<omega> k 0 2 \<and> np_normal \<omega> k 0 2 \<le> 60"
  unfolding np_normal_ok_def by (drule spec [of _ k], drule spec [of _ 0], drule spec [of _ 2]) simp

lemma pick_base_rate_range:
  "np_random_ok \<omega> \<Longrightarrow> 60 \<le> fst (pick_base_rate \<omega> c p) \<and> fst (pick_base_rate \<omega> c p) < 85"
  using randint_range [of \<omega> 60 85 p] by (simp add: pick_base_rate_def)

text \<open>
  Claim C4. The \<open>j\<close>-th row of the \<open>i\<close>-th country uses the base rate picked once for
  that country: 75, 65 and 70 for USA, India and Brazil, and for the others a
  \<open>randint(60, 85)\<close> draw, which is in \<open>[60, 85]\<close>. Its fully vaccinated percentage is the
  minimum of 95 and base rate plus a tenth of the day offset plus the normal deviate,
  clamped at 0, and its partially vaccinated percentage is the minimum of 100 and the
  fully vaccinated percentage plus a draw in \<open>[5, 15)\<close>.
\<close>

theorem generated_row_formula:
  assumes "np_random_ok \<omega>" and "np_normal_ok \<omega>" and "i < length countries" and "j < 366"
  shows
    "let c = countries ! i;
         base_rate = fst (pick_base_rate \<omega> c (base_pos n i));
         k = row_pos n i j;
         noise = np_normal \<omega> k 0 2;
         bump = np_randint \<omega> (k + 1) 5 15;
         r = fst (generate_vaccination_data \<omega> now n) ! (i * 366 + j)
     in Country r = c \<and> Date r = now - timedelta_days 365 + int j * day_us \<and>
        (c = ''USA'' \<longrightarrow> base_rate = 75) \<and>
        (c = ''India'' \<longrightarrow> base_rate = 65) \<and>
        (c = ''Brazil'' \<longrightarrow> base_rate = 70) \<and>
        (c \<noteq> ''USA'' \<and> c \<noteq> ''India'' \<and> c \<noteq> ''Brazil'' \<longrightarrow>
           base_rate = np_randint \<omega> (base_pos n i) 60 85 \<and> 60 \<le> base_rate \<and> base_rate \<le> 85) \<and>
        5 \<le> bump \<and> bump < 15 \<and>
        Fully_Vaccinated_Percentage r =
          max 0 (min 95 (real_of_int base_rate + real j * 0.1 + noise)) \<and>
        Partially_Vaccinated_Percentage r =
          min 100 (Fully_Vaccinated_Percentage r + real_of_int bump)"
proof -
  let ?c = "countries ! i"
  let ?b = "fst (pick_base_rate \<omega> ?c (base_pos n i))"
  let ?k = "row_pos n i j"
  let ?sd = "now - timedelta_days 365"
  let ?r = "fst (generate_vaccination_data \<omega> now n) ! (i * 366 + j)"
  let ?x = "real_of_int ?b + real j * 0.1 + np_normal \<omega> ?k 0 2"
  let ?bump = "np_randint \<omega> (?k + 1) 5 15"
  have r: "?r = fst (gen_row \<omega> ?sd ?c ?b (?sd + int j * day_us) ?k)"
    by (rule generate_nth [OF assms(3,4)])
  have key: "Country ?r = ?c \<and> Date ?r = ?sd + int j * day_us"
    unfolding r by (rule gen_row_key)
  have fixed: "(?c = ''USA'' \<longrightarrow> ?b = 75) \<and> (?c = ''India'' \<longrightarrow> ?b = 65) \<and>
      (?c = ''Brazil'' \<longrightarrow> ?b = 70)"
    by (simp add: pick_base_rate_def)
  have b: "60 \<le> ?b \<and> ?b < 85"
    using assms(1) by (rule pick_base_rate_range)
  have drawn: "?c \<noteq> ''USA'' \<and> ?c \<noteq> ''India'' \<and> ?c \<noteq> ''Brazil'' \<longrightarrow>
      ?b = np_randint \<omega> (base_pos n i) 60 85 \<and> 60 \<le> ?b \<and> ?b \<le> 85"
    using randint_range [OF assms(1), of 60 85 "base_pos n i"] by (simp add: pick_base_rate_def)
  have bump: "5 \<le> ?bump \<and> ?bump < 15"
    using randint_range [OF assms(1), of 5 15 "?k + 1"] by simp
  have vals: "Fully_Vaccinated_Percentage ?r = max 0 (min 95 ?x) \<and>
      Partially_Vaccinated_Percentage ?r = max 0 (min 100 (min 95 ?x + real_of_int ?bump))"
    unfolding r using gen_row_fields [of \<omega> ?sd ?c ?b "?sd + int j * day_us" ?k]
    by (simp only: days_from_start of_int_of_nat_eq)
  have "60 \<le> real_of_int ?b" using b by simp
  moreover have "- 60 \<le> np_normal \<omega> ?k 0 2"
    using normal_range [OF assms(2)] by blast
  ultimately have x: "0 \<le> ?x" by simp
  have "5 \<le> real_of_int ?bump" using bump by simp
  then have part: "Partially_Vaccinated_Percentage ?r
      = min 100 (Fully_Vaccinated_Percentage ?r + real_of_int ?bump)"
    using vals x by (simp add: min_def max_def)
  show ?thesis
    unfolding Let_def using key fixed drawn bump vals part by blast
qed

lemma block_off_3: "block_off 366 countries 3 = 5490"
  by (simp add: block_off_def countries_def base_draws_def)

theorem generated_row_formula_witness:
  "np_random_ok least_draws \<and> np_normal_ok least_draws \<and>
   3 < length countries \<and> (10::nat) < 366 \<and>
   countries ! 3 = ''UK'' \<and> base_pos 0 3 = 5490 \<and> row_pos 0 3 10 = 5541 \<and>
   fst (pick_base_rate least_draws ''UK'' 5490) = 60 \<and>
   Country (fst (generate_vaccination_data least_draws 0 0) ! (3 * 366 + 10)) = ''UK'' \<and>
   Date (fst (generate_vaccination_data least_draws 0 0) ! (3 * 366 + 10))
     = 0 - timedelta_days 365 + 10 * day_us \<and>
   Fully_Vaccinated_Percentage (fst (generate_vaccination_data least_draws 0 0) ! (3 * 366 + 10))
     = 61 \<and>
   Partially_Vaccinated_Percentage (fst (generate_vaccination_data least_draws 0 0) ! (3 * 366 + 10))
     = 66"
proof -
  have i: "3 < length countries" by (simp add: countries_def)
  have j: "(10::nat) < 366" by simp
  have c: "countries ! 3 = ''UK''" by (simp add: countries_def)
  have p: "base_pos 0 3 = 5490" by (simp add: base_pos_def block_off_3)
  have k: "row_pos 0 3 10 = 5541" by (simp add: row_pos_def p c base_draws_def)
  show ?thesis
    using generated_row_formula [OF least_draws_ok least_draws_normal_ok i j, of 0 0] i
      least_draws_ok least_draws_normal_ok
    by (simp add: Let_def c p k pick_base_rate_def least_draws_sel)
qed

text \<open>
  The bound on the normal deviates is what keeps the clamp of the partially vaccinated
  percentage idle: with a deviate of \<open>-100\<close>, outside that bound, the first row would
  store 0 and 0.
\<close>

lemma partial_clamp_outside_sampler_range:
  "\<not> np_normal_ok cold_draws \<and> np_normal cold_draws 0 0 2 = - 100 \<and>
   Fully_Vaccinated_Percentage (fst (generate_vaccination_data cold_draws 0 0) ! 0) = 0 \<and>
   Partially_Vaccinated_Percentage (fst (generate_vaccination_data cold_draws 0 0) ! 0) = 0"
proof -
  have r: "fst (generate_vaccination_data cold_draws 0 0) ! 0 =
      fst (gen_row cold_draws (0 - timedelta_days 365) ''USA'' 75 (0 - timedelta_days 365) 0)"
    using generate_nth [of 0 0 cold_draws 0 0]
    by (simp add: countries_def pick_base_rate_def row_pos_def base_pos_def block_off_def
        base_draws_def)
  have "\<not> np_normal_ok cold_draws"
    using normal_range [of cold_draws 0] by (auto simp add: cold_draws_sel)
  then show ?thesis
    by (simp add: r gen_row_key gen_row_fields cold_draws_sel)
qed

text \<open>
  The vaccine type of a row is one of the five names passed to \<open>np.random.choice\<close>,
  whose weights sum to one. How often each name comes up is a property of the
  distribution of the draws, which a single run does not have.
\<close>

lemma vaccine_probs_total:
  "sum_list vaccine_probs = 1 \<and> length vaccine_probs = length vaccine_types"
  by (simp add: vaccine_probs_def vaccine_types_def)

lemma generated_vaccine_type:
  assumes "np_random_ok \<omega>" and "r \<in> set (fst (generate_vaccination_data \<omega> now n))"
  shows "Vaccine_Type r \<in> set vaccine_types"
proof -
  obtain c b d k where r: "r = fst (gen_row \<omega> (now - timedelta_days 365) c b d k)"
    using generate_rows [OF assms(2)] by blast
  have "np_choice \<omega> (k + 4) (length vaccine_types) vaccine_probs < length vaccine_types"
    using assms(1) by (simp add: np_random_ok_def vaccine_types_def)
  then show ?thesis
    by (simp add: r gen_row_def Let_def)
qed

section \<open>Properties of the filter and of the country comparison\<close>

lemma filter_eq_singleton:
  "distinct xs \<Longrightarrow> x \<in> set xs \<Longrightarrow> filter (\<lambda>y. y = x) xs = [x]"
  by (induction xs) (auto simp add: filter_empty_conv)

lemma sorted_le_last: "sorted xs \<Longrightarrow> y \<in> set xs \<Longrightarrow> y \<le> last xs"
  by (induction xs) auto

lemma sorted_map_last:
  assumes "sorted (map f xs)" and "x \<in> set xs"
  shows "f x \<le> f (last xs)"
proof -
  have ne: "xs \<noteq> []" using assms(2) by auto
  have "f x \<in> set (map f xs)" using assms(2) by simp
  then have "f x \<le> last (map f xs)"
    using assms(1) by (rule sorted_le_last [rotated])
  then show ?thesis by (simp add: last_map ne)
qed


lemma group_sorted:
  "sorted (map Date (filter (\<lambda>r. Country r = c) (sort_key Date df)))"
  by (simp add: sorted_filter)

lemma group_nonempty:
  "c \<in> Country ` set df \<Longrightarrow> filter (\<lambda>r. Country r = c) (sort_key Date df) \<noteq> []"
  by (auto simp add: filter_empty_conv)

lemma group_last:
  assumes "c \<in> Country ` set df"
  shows "last (filter (\<lambda>r. Country r = c) (sort_key Date df)) \<in> set df \<and>
         Country (last (filter (\<lambda>r. Country r = c) (sort_key Date df))) = c \<and>
         (\<forall>r' \<in> set df. Country r' = c \<longrightarrow>
            Date r' \<le> Date (last (filter (\<lambda>r. Country r = c) (sort_key Date df))))"
proof -
  let ?g = "filter (\<lambda>r. Country r = c) (sort_key Date df)"
  have ne: "?g \<noteq> []" using assms by (rule group_nonempty)
  then have mem: "last ?g \<in> set ?g" by (rule last_in_set)
  have "\<And>r'. r' \<in> set df \<Longrightarrow> Country r' = c \<Longrightarrow> Date r' \<le> Date (last ?g)"
  proof -
    fix r' assume "r' \<in> set df" and "Country r' = c"
    then have "r' \<in> set ?g" by simp
    then show "Date r' \<le> Date (last ?g)"
      using group_sorted [of c df] by (rule sorted_map_last [rotated])
  qed
  then show ?thesis using mem by simp
qed

lemma latest_data_alt:
  "latest_data df =
     map (\<lambda>c. last (filter (\<lambda>r. Country r = c) (sort_key Date df)))
       (sort (remdups (map Country df)))"
proof -
  have "sort (remdups (map Country (sort_key Date df))) = sort (remdups (map Country df))"
    by (rule sorted_distinct_set_unique) simp_all
  then show ?thesis by (simp add: latest_data_def groupby_country_last_def)
qed

lemma latest_data_group:
  assumes "c \<in> Country ` set df"
  shows "filter (\<lambda>r'. Country r' = c) (latest_data df) =
           [last (filter (\<lambda>r. Country r = c) (sort_key Date df))]"
proof -
  let ?h = "\<lambda>c. last (filter (\<lambda>r. Country r = c) (sort_key Date df))"
  let ?keys = "sort (remdups (map Country df))"
  have keys: "distinct ?keys" "set ?keys = Country ` set df" by simp_all
  have "filter (\<lambda>r'. Country r' = c) (map ?h ?keys) =
      map ?h (filter (\<lambda>c'. Country (?h c') = c) ?keys)"
    by (simp add: filter_map o_def)
  also have "filter (\<lambda>c'. Country (?h c') = c) ?keys = filter (\<lambda>c'. c' = c) ?keys"
    by (rule filter_cong) (use keys(2) group_last in auto)
  also have "\<dots> = [c]"
    using keys assms by (intro filter_eq_singleton) simp_all
  finally show ?thesis by (simp add: latest_data_alt)
qed

lemma latest_data_countries: "Country ` set (latest_data df) = Country ` set df"
proof -
  have "\<And>c. c \<in> Country ` set df \<Longrightarrow>
      Country (last (filter (\<lambda>r. Country r = c) (sort_key Date df))) = c"
    using group_last by blast
  then show ?thesis
    by (force simp add: latest_data_alt image_iff)
qed

lemma latest_data_max:
  assumes "distinct (map (\<lambda>r. (Country r, Date r)) df)" and "c \<in> Country ` set df"
  shows "\<exists>r. filter (\<lambda>r'. Country r' = c) (latest_data df) = [r] \<and> r \<in> set df \<and>
             Country r = c \<and>
             (\<forall>r' \<in> set df. Country r' = c \<and> r' \<noteq> r \<longrightarrow> Date r' < Date r)"
proof -
  let ?r = "last (filter (\<lambda>r. Country r = c) (sort_key Date df))"
  have inj: "inj_on (\<lambda>r. (Country r, Date r)) (set df)"
    using assms(1) by (simp add: distinct_map)
  have g: "?r \<in> set df" "Country ?r = c"
    "\<And>r'. r' \<in> set df \<Longrightarrow> Country r' = c \<Longrightarrow> Date r' \<le> Date ?r"
    using group_last [OF assms(2)] by simp_all
  have "\<And>r'. r' \<in> set df \<Longrightarrow> Country r' = c \<Longrightarrow> r' \<noteq> ?r \<Longrightarrow> Date r' < Date ?r"
  proof -
    fix r' assume r': "r' \<in> set df" "Country r' = c" "r' \<noteq> ?r"
    then have "Date r' \<noteq> Date ?r"
      using inj g(1,2) by (auto dest: inj_onD)
    then show "Date r' < Date ?r" using g(3) [OF r'(1,2)] by simp
  qed
  then show ?thesis
    using latest_data_group [OF assms(2)] g(1,2) by blast
qed

text \<open>The country comparison of the small frame, in the order of the country names.\<close>

lemma latest_data_sample:
  "latest_data sample_frame = [sample_row ''Brazil'' 1, sample_row ''India'' 3, sample_row ''USA'' 2]"
  by (simp add: latest_data_def groupby_country_last_def sample_frame_def sample_row_def day_us_def)

lemma date_of_sample_row: "date_of (Date (sample_row c d)) = d"
  by (simp add: sample_row_def date_of_def day_us_def)

lemma Country_sample_row: "Country (sample_row c d) = c"
  by (simp add: sample_row_def)

text \<open>
  Claim C2. The filtered table holds only rows whose date is in \<open>[a, b]\<close>, bounds
  included; for a non-empty selection without the sentinel it is exactly the rows of the
  table, in their order, whose country is selected and whose date is in range; with the
  sentinel among the selection the country filter does nothing.
\<close>

theorem filter_data_exact:
  "(\<forall>r \<in> set (filter_data df selected_countries a b).
      a \<le> date_of (Date r) \<and> date_of (Date r) \<le> b) \<and>
   (selected_countries \<noteq> [] \<and> ''All Countries'' \<notin> set selected_countries \<longrightarrow>
      (\<forall>r \<in> set (filter_data df selected_countries a b). Country r \<in> set selected_countries) \<and>
      filter_data df selected_countries a b =
        filter (\<lambda>r. Country r \<in> set selected_countries \<and>
                     a \<le> date_of (Date r) \<and> date_of (Date r) \<le> b) df) \<and>
   (''All Countries'' \<in> set selected_countries \<longrightarrow>
      filter_data df selected_countries a b =
        filter (\<lambda>r. a \<le> date_of (Date r) \<and> date_of (Date r) \<le> b) df)"
  by (simp add: filter_data_def Let_def)

theorem filter_data_exact_witness:
  "[''USA''] \<noteq> [] \<and> ''All Countries'' \<notin> set [''USA''] \<and>
   filter_data sample_frame [''USA''] 1 1 = [sample_row ''USA'' 1] \<and>
   sample_row ''USA'' 1 \<in> set (filter_data sample_frame [''USA''] 1 1) \<and>
   date_of (Date (sample_row ''USA'' 1)) = 1 \<and>
   Country (sample_row ''USA'' 1) \<in> set [''USA''] \<and>
   ''All Countries'' \<in> set [''All Countries'', ''USA''] \<and>
   filter_data sample_frame [''All Countries'', ''USA''] 1 1 =
     [sample_row ''India'' 1, sample_row ''USA'' 1, sample_row ''Brazil'' 1]"
  using filter_data_exact [of sample_frame "[''USA'']" 1 1]
    filter_data_exact [of sample_frame "[''All Countries'', ''USA'']" 1 1]
  by (simp add: sample_frame_def date_of_sample_row Country_sample_row)

lemma generate_key_set:
  "(\<lambda>r. (Country r, Date r)) ` set (fst (generate_vaccination_data \<omega> now n)) =
     set countries \<times> set (date_range (now - timedelta_days 365) now)"
proof -
  have "(\<lambda>r. (Country r, Date r)) ` set (fst (generate_vaccination_data \<omega> now n)) =
      set (map (\<lambda>r. (Country r, Date r)) (fst (generate_vaccination_data \<omega> now n)))"
    by simp
  also have "\<dots> = set countries \<times> set (date_range (now - timedelta_days 365) now)"
    by (simp only: generate_keys set_product)
  finally show ?thesis .
qed

lemma generate_has_row:
  assumes "c \<in> set countries" and "d \<in> set (date_range (now - timedelta_days 365) now)"
  shows "\<exists>r \<in> set (fst (generate_vaccination_data \<omega> now n)). Country r = c \<and> Date r = d"
proof -
  have "(c, d) \<in> (\<lambda>r. (Country r, Date r)) ` set (fst (generate_vaccination_data \<omega> now n))"
    using assms by (simp add: generate_key_set)
  then show ?thesis by auto
qed

lemma generate_row_key:
  assumes "r \<in> set (fst (generate_vaccination_data \<omega> now n))"
  shows "Country r \<in> set countries \<and> Date r \<in> set (date_range (now - timedelta_days 365) now)"
proof -
  have "(Country r, Date r) \<in> set countries \<times> set (date_range (now - timedelta_days 365) now)"
    using assms generate_key_set [of \<omega> now n] by blast
  then show ?thesis by simp
qed

lemma set_filter_data_empty:
  "set (filter_data df [] a b) = {r \<in> set df. a \<le> date_of (Date r) \<and> date_of (Date r) \<le> b}"
  by (simp add: filter_data_def Let_def)

text \<open>
  Claim C9. With an empty selection the country filter is skipped: the result is the
  date mask alone, the same as with the sentinel, and on the generated table it has rows
  of every generated country as soon as one timestamp of the window is in the date range
  (and of none otherwise).
\<close>

theorem empty_selection_skips_country_filter:
  "filter_data df [] a b = filter (\<lambda>r. a \<le> date_of (Date r) \<and> date_of (Date r) \<le> b) df \<and>
   filter_data df [] a b = filter_data df [''All Countries''] a b \<and>
   (Country ` set (filter_data (fst (generate_vaccination_data \<omega> now n)) [] a b) = set countries) =
     (\<exists>d \<in> set (date_range (now - timedelta_days 365) now). a \<le> date_of d \<and> date_of d \<le> b)"
proof -
  let ?T = "fst (generate_vaccination_data \<omega> now n)"
  let ?D = "set (date_range (now - timedelta_days 365) now)"
  have sub: "Country ` set (filter_data ?T [] a b) \<subseteq> set countries"
    using generate_row_key [of _ \<omega> now n] by (auto simp add: set_filter_data_empty)
  have "Country ` set (filter_data ?T [] a b) = set countries"
    if "d \<in> ?D" and "a \<le> date_of d" and "date_of d \<le> b" for d
  proof -
    have "c \<in> Country ` set (filter_data ?T [] a b)" if "c \<in> set countries" for c
    proof -
      obtain r where "r \<in> set ?T" "Country r = c" "Date r = d"
        using generate_has_row [OF \<open>c \<in> set countries\<close> \<open>d \<in> ?D\<close>, of \<omega> n] by blast
      then have "r \<in> set (filter_data ?T [] a b)"
        using \<open>a \<le> date_of d\<close> \<open>date_of d \<le> b\<close> by (simp add: set_filter_data_empty)
      then show ?thesis using \<open>Country r = c\<close> by blast
    qed
    then show ?thesis using sub by blast
  qed
  moreover have "\<exists>d \<in> ?D. a \<le> date_of d \<and> date_of d \<le> b"
    if "Country ` set (filter_data ?T [] a b) = set countries"
  proof -
    have "''USA'' \<in> Country ` set (filter_data ?T [] a b)"
      using that by (simp add: countries_def)
    then obtain r where "r \<in> set ?T" "a \<le> date_of (Date r)" "date_of (Date r) \<le> b"
      by (auto simp add: set_filter_data_empty)
    then show ?thesis using generate_row_key [of r \<omega> now n] by blast
  qed
  ultimately show ?thesis
    by (auto simp add: filter_data_def Let_def)
qed

lemma filter_data_distinct:
  "distinct (map f df) \<Longrightarrow> distinct (map f (filter_data df selected_countries a b))"
  by (simp add: filter_data_def Let_def distinct_map_filter)

lemma generate_distinct_keys:
  "distinct (map (\<lambda>r. (Country r, Date r)) (fst (generate_vaccination_data \<omega> now n)))"
  unfolding generate_keys
  by (simp add: distinct_product distinct_countries distinct_date_range)

text \<open>
  Claim C7. For every country with a row in the filtered table, the country comparison
  holds exactly one row of that country, and it is the row of the filtered table with
  the greatest timestamp for that country; it has rows of no other country.
\<close>

theorem latest_data_picks_last_record:
  assumes "df_filtered =
      filter_data (fst (generate_vaccination_data \<omega> now n)) selected_countries a b"
    and "c \<in> Country ` set df_filtered"
  shows "(\<exists>r. filter (\<lambda>r'. Country r' = c) (latest_data df_filtered) = [r] \<and>
              r \<in> set df_filtered \<and> Country r = c \<and>
              (\<forall>r' \<in> set df_filtered. Country r' = c \<and> r' \<noteq> r \<longrightarrow> Date r' < Date r)) \<and>
         Country ` set (latest_data df_filtered) = Country ` set df_filtered"
proof -
  have "distinct (map (\<lambda>r. (Country r, Date r)) df_filtered)"
    unfolding assms(1) using generate_distinct_keys by (rule filter_data_distinct)
  then show ?thesis
    using latest_data_max [OF _ assms(2)] latest_data_countries [of df_filtered] by blast
qed

lemma second_row_least:
  "Country (fst (generate_vaccination_data least_draws 0 0) ! 1) = ''USA'' \<and>
   Date (fst (generate_vaccination_data least_draws 0 0) ! 1) = - 364 * day_us"
  using generate_nth [of 0 1 least_draws 0 0]
  by (simp add: countries_def gen_row_key timedelta_days_def del: One_nat_def)

lemma second_row_in_range:
  "fst (generate_vaccination_data least_draws 0 0) ! 1
     \<in> set (filter_data (fst (generate_vaccination_data least_draws 0 0)) [''USA''] (- 365) (- 364))"
proof -
  have mem: "fst (generate_vaccination_data least_draws 0 0) ! 1
      \<in> set (fst (generate_vaccination_data least_draws 0 0))"
    by (simp add: length_generate)
  then show ?thesis
    by (simp add: filter_data_def Let_def second_row_least date_of_def day_us_def
        del: One_nat_def)
qed

lemma window_date_bound:
  assumes "d \<in> set (date_range (0 - timedelta_days 365) 0)" and "date_of d \<le> - 364"
  shows "d \<le> - 364 * day_us"
proof -
  obtain k where k: "d = - (365 * day_us) + int k * day_us"
    using assms(1) by (auto simp add: date_range_def timedelta_days_def split: if_splits)
  have "date_of d = - 365 + int k"
    unfolding k date_of_def by (simp add: day_us_def)
  then have "int k \<le> 1" using assms(2) by simp
  then have "int k * day_us \<le> 1 * day_us"
    by (intro mult_right_mono) (simp_all add: day_us_def)
  then show ?thesis unfolding k by simp
qed

theorem latest_data_picks_last_record_witness:
  "''USA'' \<in> Country ` set (filter_data (fst (generate_vaccination_data least_draws 0 0))
                              [''USA''] (- 365) (- 364)) \<and>
   filter (\<lambda>r'. Country r' = ''USA'')
     (latest_data (filter_data (fst (generate_vaccination_data least_draws 0 0))
                     [''USA''] (- 365) (- 364)))
     = [fst (generate_vaccination_data least_draws 0 0) ! 1] \<and>
   Date (fst (generate_vaccination_data least_draws 0 0) ! 1) = - 364 * day_us \<and>
   Date (fst (generate_vaccination_data least_draws 0 0) ! 0) = - 365 * day_us"
proof -
  let ?T = "fst (generate_vaccination_data least_draws 0 0)"
  let ?df = "filter_data ?T [''USA''] (- 365) (- 364)"
  have c: "''USA'' \<in> Country ` set ?df"
    using second_row_in_range second_row_least by (metis image_eqI)
  obtain r where r: "filter (\<lambda>r'. Country r' = ''USA'') (latest_data ?df) = [r]"
      "r \<in> set ?df" "Country r = ''USA''"
      "\<forall>r' \<in> set ?df. Country r' = ''USA'' \<and> r' \<noteq> r \<longrightarrow> Date r' < Date r"
    using latest_data_picks_last_record [OF refl c] by blast
  have "r \<in> set ?T" and "date_of (Date r) \<le> - 364"
    using r(2) by (simp_all add: filter_data_def Let_def)
  then have "Date r \<le> - 364 * day_us"
    using generate_row_key [of r least_draws 0 0] window_date_bound by blast
  then have "\<not> Date (?T ! 1) < Date r"
    by (simp add: second_row_least del: One_nat_def)
  then have "?T ! 1 = r"
    using r(4) second_row_in_range second_row_least by blast
  then show ?thesis
    using c r(1) second_row_least by (simp add: first_row_least del: One_nat_def)
qed

section \<open>Properties of the fetch and of the Global Map page\<close>

lemma cached_generate_hit:
  "now < t + ttl_us \<Longrightarrow>
     cached_generate_vaccination_data \<omega> now (Some (t, df), n) = (df, Some (t, df), n)"
  by (simp add: cached_generate_vaccination_data_def)

lemma cached_generate_miss:
  "\<not> cache_hit now c \<Longrightarrow>
     cached_generate_vaccination_data \<omega> now (c, n) =
       (fst (generate_vaccination_data \<omega> now n),
        Some (now, fst (generate_vaccination_data \<omega> now n)),
        snd (generate_vaccination_data \<omega> now n))"
  by (simp add: cached_generate_vaccination_data_def cache_hit_def split: option.splits prod.splits)

lemma cached_generate_pos_hit:
  "cache_hit now c \<Longrightarrow> snd (snd (cached_generate_vaccination_data \<omega> now (c, n))) = n"
  by (auto simp add: cached_generate_vaccination_data_def cache_hit_def split: option.splits)

lemma call_generate_returns:
  "call_generate \<omega> now s =
     (Inr (fst (cached_generate_vaccination_data \<omega> now s)),
      snd (cached_generate_vaccination_data \<omega> now s))"
  by (simp add: call_generate_def split: prod.split)

lemma fetch_returns:
  "fetch_real_vaccination_data \<omega> now s warnings =
     (Inr (fst (cached_generate_vaccination_data \<omega> now s)),
      snd (cached_generate_vaccination_data \<omega> now s), warnings)"
  by (simp add: fetch_real_vaccination_data_def try_generate_def call_generate_returns)

lemma try_generate_returns:
  "gen s = (Inr df, s1) \<Longrightarrow> try_generate gen s warnings = (Inr df, s1, warnings)"
  by (simp add: try_generate_def)

lemma try_generate_handler:
  "gen s = (Inl e, s1) \<Longrightarrow>
     try_generate gen s warnings =
       (fst (gen s1), snd (gen s1),
        warnings @ [''Could not fetch real-time data. Using sample data.''])"
  by (simp add: try_generate_def split: prod.split)

text \<open>
  Claim C6, as the code has it. What the call in the \<open>try\<close> block raises is caught: the
  warning is appended and the function ends as a second call of the generator does,
  with its table or with what it raises, the handler's call being outside any \<open>try\<close>.
  So an exception leaves the function exactly when both calls raise. When the first
  call returns, its table is returned and no warning is added; and since the call of the
  generator always returns, the function returns that call's table, from the cache or
  newly computed.
\<close>

theorem fetch_catches_first_failure:
  "(\<forall>df s1. gen s = (Inr df, s1) \<longrightarrow> try_generate gen s warnings = (Inr df, s1, warnings)) \<and>
   (\<forall>e s1. gen s = (Inl e, s1) \<longrightarrow>
      try_generate gen s warnings =
        (fst (gen s1), snd (gen s1),
         warnings @ [''Could not fetch real-time data. Using sample data.''])) \<and>
   (\<exists>e. fst (try_generate gen s warnings) = Inl e) =
     (\<exists>e e'. fst (gen s) = Inl e \<and> fst (gen (snd (gen s))) = Inl e') \<and>
   fetch_real_vaccination_data \<omega> now s warnings =
     (Inr (fst (cached_generate_vaccination_data \<omega> now s)),
      snd (cached_generate_vaccination_data \<omega> now s), warnings)"
proof -
  have raises: "(\<exists>e. fst (try_generate gen s warnings) = Inl e) =
      (\<exists>e e'. fst (gen s) = Inl e \<and> fst (gen (snd (gen s))) = Inl e')"
  proof -
    obtain res s1 where g: "gen s = (res, s1)" by (cases "gen s") auto
    show ?thesis
    proof (cases res)
      case (Inl e)
      then show ?thesis using g by (simp add: try_generate_handler)
    next
      case (Inr df)
      then show ?thesis using g by (simp add: try_generate_returns)
    qed
  qed
  show ?thesis
    using raises try_generate_returns [of gen s _ _ warnings]
      try_generate_handler [of gen s _ _ warnings] fetch_returns [of \<omega> now s warnings]
    by blast
qed

lemma generate_end_pos: "snd (generate_vaccination_data \<omega> now n) = n + 21969"
  by (simp add: generate_vaccination_data_def Let_def country_loop_closed date_range_window
      block_off_def countries_def base_draws_def)

lemma call_generate_fresh:
  "call_generate \<omega> now (None, n) =
     (Inr (fst (generate_vaccination_data \<omega> now n)),
      Some (now, fst (generate_vaccination_data \<omega> now n)), n + 21969)"
  by (simp add: call_generate_returns cached_generate_miss cache_hit_def generate_end_pos)

theorem fetch_catches_first_failure_witness:
  "fails_first least_draws 0 (None, 0) = (Inl (Exception ''ConnectionError''), (None, 1)) \<and>
   try_generate (fails_first least_draws 0) (None, 0) [] =
     (Inr (fst (generate_vaccination_data least_draws 0 1)),
      (Some (0, fst (generate_vaccination_data least_draws 0 1)), 21970),
      [''Could not fetch real-time data. Using sample data.'']) \<and>
   call_generate least_draws 0 (None, 0) =
     (Inr (fst (generate_vaccination_data least_draws 0 0)),
      Some (0, fst (generate_vaccination_data least_draws 0 0)), 21969) \<and>
   try_generate (call_generate least_draws 0) (None, 0) [] =
     (Inr (fst (generate_vaccination_data least_draws 0 0)),
      (Some (0, fst (generate_vaccination_data least_draws 0 0)), 21969), [])"
proof -
  have f: "fails_first least_draws 0 (None, 0) = (Inl (Exception ''ConnectionError''), (None, 1))"
    by (simp add: fails_first_def)
  have g: "fails_first least_draws 0 (None, 1) =
     (Inr (fst (generate_vaccination_data least_draws 0 1)),
      Some (0, fst (generate_vaccination_data least_draws 0 1)), 21970)"
    by (simp add: fails_first_def call_generate_fresh)
  have c: "call_generate least_draws 0 (None, 0) =
     (Inr (fst (generate_vaccination_data least_draws 0 0)),
      Some (0, fst (generate_vaccination_data least_draws 0 0)), 21969)"
    by (simp add: call_generate_fresh)
  have "try_generate (fails_first least_draws 0) (None, 0) [] =
      (fst (fails_first least_draws 0 (None, 1)), snd (fails_first least_draws 0 (None, 1)),
       [] @ [''Could not fetch real-time data. Using sample data.''])"
    using fetch_catches_first_failure [of "fails_first least_draws 0" "(None, 0)" "[]"] f
    by blast
  moreover have "try_generate (call_generate least_draws 0) (None, 0) [] =
     (Inr (fst (generate_vaccination_data least_draws 0 0)),
      (Some (0, fst (generate_vaccination_data least_draws 0 0)), 21969), [])"
    using fetch_catches_first_failure [of "call_generate least_draws 0" "(None, 0)" "[]"] c
    by blast
  ultimately show ?thesis
    using f c by (simp add: g del: One_nat_def)
qed

text \<open>
  The function does propagate an exception: with a callee that raises at every call the
  handler's call raises too, after the warning.
\<close>

theorem fetch_never_propagates_counterexample:
  "always_fails (None, 0) = (Inl (Exception ''MemoryError''), (None, 0)) \<and>
   try_generate always_fails (None, 0) [] =
     (Inl (Exception ''MemoryError''), (None, 0),
      [''Could not fetch real-time data. Using sample data.''])"
  by (simp add: try_generate_def always_fails_def)

lemma geo_loop_closed:
  "geo_loop \<omega> cs (geo_data, n) =
     (geo_data @ map (\<lambda>i. gen_geo_row \<omega> (cs ! i) (n + 4 * i)) [0 ..< length cs],
      n + 4 * length cs)"
proof (induction cs arbitrary: geo_data n)
  case Nil
  then show ?case by simp
next
  case (Cons c cs)
  show ?case
    by (simp add: Cons.IH map_upt_Suc add.assoc del: upt_Suc)
qed

lemma global_map_data_closed:
  "global_map_data \<omega> n =
     (map (\<lambda>i. gen_geo_row \<omega> (countries_geo ! i) (n + 4 * i)) [0 ..< 10], n + 40)"
proof -
  have len: "length countries_geo = 10" by (simp add: countries_geo_def)
  show ?thesis
    unfolding global_map_data_def geo_loop_closed len by simp
qed

lemma gen_geo_row_eq:
  "(gen_geo_row \<omega> c k = gen_geo_row \<omega>' c k') =
     (np_randint \<omega> k 50 95 = np_randint \<omega>' k' 50 95 \<and>
      np_uniform \<omega> (k + 1) (- 50) 70 = np_uniform \<omega>' (k' + 1) (- 50) 70 \<and>
      np_uniform \<omega> (k + 2) (- 180) 180 = np_uniform \<omega>' (k' + 2) (- 180) 180 \<and>
      np_randint \<omega> (k + 3) 1000000 1000000000 = np_randint \<omega>' (k' + 3) 1000000 1000000000)"
  by (simp add: gen_geo_row_def)

lemma global_map_data_eq:
  "(fst (global_map_data \<omega> n) = fst (global_map_data \<omega>' n')) =
     (\<forall>i < 10.
        np_randint \<omega> (n + 4 * i) 50 95 = np_randint \<omega>' (n' + 4 * i) 50 95 \<and>
        np_uniform \<omega> (n + 4 * i + 1) (- 50) 70 = np_uniform \<omega>' (n' + 4 * i + 1) (- 50) 70 \<and>
        np_uniform \<omega> (n + 4 * i + 2) (- 180) 180 = np_uniform \<omega>' (n' + 4 * i + 2) (- 180) 180 \<and>
        np_randint \<omega> (n + 4 * i + 3) 1000000 1000000000
          = np_randint \<omega>' (n' + 4 * i + 3) 1000000 1000000000)"
  unfolding global_map_data_closed fst_conv
  by (simp only: map_eq_conv gen_geo_row_eq set_upt atLeast0LessThan lessThan_iff Ball_def)

lemma load_data_loaded:
  "vaccine_data st = Some df \<Longrightarrow> load_data \<omega> now st s warnings = (Inr df, st, s, warnings)"
  by (simp add: load_data_def)

lemma load_data_empty_session:
  "vaccine_data st = None \<Longrightarrow>
     load_data \<omega> now st s warnings =
       (Inr (fst (cached_generate_vaccination_data \<omega> now s)),
        st\<lparr>vaccine_data := Some (fst (cached_generate_vaccination_data \<omega> now s)),
            last_update := Some now\<rparr>,
        snd (cached_generate_vaccination_data \<omega> now s), warnings)"
  by (simp add: load_data_def fetch_returns)

lemma main_global_map:
  "fst (main \<omega> now Global_Map a b sel st s w) =
     Inr (Global_Map_View (fst (global_map_data \<omega>
       (if vaccine_data st = None then snd (snd (cached_generate_vaccination_data \<omega> now s))
        else snd s))))"
proof (cases "vaccine_data st")
  case None
  then show ?thesis by (simp add: main_def load_data_empty_session Let_def)
next
  case (Some df)
  then show ?thesis by (simp add: main_def load_data_loaded Let_def)
qed

text \<open>
  Claim C10. On the Global Map page the plotted rows are the forty draws made from the
  position of the generator at that point. With a table in the session they are the
  same for any two tables, date ranges, selections and caches; with an empty session
  they start where the load leaves the generator, which is where it was when the cache
  serves the table and 21969 draws later when the table is generated. Each render moves
  the position by forty, and two renders plot the same rows exactly when all forty
  draws agree.
\<close>

theorem global_map_ignores_table_and_filters:
  "(vaccine_data st1 \<noteq> None \<and> vaccine_data st2 \<noteq> None \<longrightarrow>
      fst (main \<omega> now Global_Map a1 b1 sel1 st1 (c1, n) w1)
        = Inr (Global_Map_View (fst (global_map_data \<omega> n))) \<and>
      fst (main \<omega> now Global_Map a1 b1 sel1 st1 (c1, n) w1)
        = fst (main \<omega> now Global_Map a2 b2 sel2 st2 (c2, n) w2)) \<and>
   (vaccine_data st1 = None \<and> cache_hit now c1 \<longrightarrow>
      fst (main \<omega> now Global_Map a1 b1 sel1 st1 (c1, n) w1)
        = Inr (Global_Map_View (fst (global_map_data \<omega> n)))) \<and>
   (vaccine_data st1 = None \<and> \<not> cache_hit now c1 \<longrightarrow>
      fst (main \<omega> now Global_Map a1 b1 sel1 st1 (c1, n) w1)
        = Inr (Global_Map_View (fst (global_map_data \<omega> (n + 21969))))) \<and>
   snd (global_map_data \<omega> n) = n + 40 \<and>
   (fst (global_map_data \<omega> n) = fst (global_map_data \<omega>' n')) =
     (\<forall>i < 10.
        np_randint \<omega> (n + 4 * i) 50 95 = np_randint \<omega>' (n' + 4 * i) 50 95 \<and>
        np_uniform \<omega> (n + 4 * i + 1) (- 50) 70 = np_uniform \<omega>' (n' + 4 * i + 1) (- 50) 70 \<and>
        np_uniform \<omega> (n + 4 * i + 2) (- 180) 180 = np_uniform \<omega>' (n' + 4 * i + 2) (- 180) 180 \<and>
        np_randint \<omega> (n + 4 * i + 3) 1000000 1000000000
          = np_randint \<omega>' (n' + 4 * i + 3) 1000000 1000000000)"
proof -
  have loaded: "fst (main \<omega> now Global_Map a b sel st (c, n) w)
      = Inr (Global_Map_View (fst (global_map_data \<omega> n)))"
    if "vaccine_data st \<noteq> None" for a b sel st c w
    using that by (auto simp add: main_global_map)
  have hit: "fst (main \<omega> now Global_Map a1 b1 sel1 st1 (c1, n) w1)
      = Inr (Global_Map_View (fst (global_map_data \<omega> n)))"
    if "vaccine_data st1 = None" and "cache_hit now c1"
    using that by (simp add: main_global_map cached_generate_pos_hit)
  have miss: "fst (main \<omega> now Global_Map a1 b1 sel1 st1 (c1, n) w1)
      = Inr (Global_Map_View (fst (global_map_data \<omega> (n + 21969))))"
    if "vaccine_data st1 = None" and "\<not> cache_hit now c1"
    using that by (simp add: main_global_map cached_generate_miss generate_end_pos)
  have pos: "snd (global_map_data \<omega> n) = n + 40"
    by (simp add: global_map_data_closed)
  show ?thesis
    using loaded hit miss pos global_map_data_eq [of \<omega> n \<omega>' n'] by simp
qed

theorem global_map_ignores_table_and_filters_witness:
  "vaccine_data \<lparr>vaccine_data = Some [], last_update = None\<rparr> \<noteq> None \<and>
   vaccine_data \<lparr>vaccine_data = Some sample_frame, last_update = Some 0\<rparr> \<noteq> None \<and>
   fst (main least_draws 0 Global_Map 0 1 [''USA'']
          \<lparr>vaccine_data = Some [], last_update = None\<rparr> (None, 0) [])
     = fst (main least_draws 0 Global_Map 2 3 []
              \<lparr>vaccine_data = Some sample_frame, last_update = Some 0\<rparr>
              (Some (0, sample_frame), 0) []) \<and>
   vaccine_data \<lparr>vaccine_data = None, last_update = None\<rparr> = None \<and>
   cache_hit 5 (Some (0, sample_frame)) \<and>
   fst (main least_draws 5 Global_Map 0 1 []
          \<lparr>vaccine_data = None, last_update = None\<rparr> (Some (0, sample_frame), 0) [])
     = Inr (Global_Map_View (fst (global_map_data least_draws 0))) \<and>
   \<not> cache_hit 5 None \<and>
   fst (main least_draws 5 Global_Map 0 1 []
          \<lparr>vaccine_data = None, last_update = None\<rparr> (None, 0) [])
     = Inr (Global_Map_View (fst (global_map_data least_draws 21969))) \<and>
   (0::nat) < 10 \<and>
   np_randint least_draws (0 + 4 * 0) 50 95 \<noteq> np_randint second_draws (0 + 4 * 0) 50 95 \<and>
   fst (global_map_data least_draws 0) \<noteq> fst (global_map_data second_draws 0)"
proof -
  let ?s1 = "\<lparr>vaccine_data = Some [], last_update = None\<rparr>"
  let ?s2 = "\<lparr>vaccine_data = Some sample_frame, last_update = Some 0\<rparr>"
  let ?s0 = "\<lparr>vaccine_data = None, last_update = None\<rparr>"
  have d: "np_randint least_draws (0 + 4 * 0) 50 95 \<noteq> np_randint second_draws (0 + 4 * 0) 50 95"
    by (simp add: least_draws_def second_draws_def)
  have h1: "vaccine_data ?s1 \<noteq> None" by simp
  have h2: "vaccine_data ?s2 \<noteq> None" by simp
  have h0: "vaccine_data ?s0 = None" by simp
  have hit: "cache_hit 5 (Some (0, sample_frame))" by (simp add: cache_hit_def ttl_us_def)
  have miss: "\<not> cache_hit 5 None" by (simp add: cache_hit_def)
  have s: "fst (main least_draws 0 Global_Map 0 1 [''USA''] ?s1 (None, 0) [])
     = fst (main least_draws 0 Global_Map 2 3 [] ?s2 (Some (0, sample_frame), 0) [])"
    using global_map_ignores_table_and_filters
      [of ?s1 ?s2 least_draws 0 0 1 "[''USA'']" None 0 "[]" 2 3 "[]" "Some (0, sample_frame)" "[]"
          least_draws 0] h1 h2
    by blast
  have a: "fst (main least_draws 5 Global_Map 0 1 [] ?s0 (Some (0, sample_frame), 0) [])
     = Inr (Global_Map_View (fst (global_map_data least_draws 0)))"
    using global_map_ignores_table_and_filters
      [of ?s0 ?s0 least_draws 5 0 1 "[]" "Some (0, sample_frame)" 0 "[]" 0 1 "[]" None "[]"
          least_draws 0] h0 hit
    by blast
  have b: "fst (main least_draws 5 Global_Map 0 1 [] ?s0 (None, 0) [])
     = Inr (Global_Map_View (fst (global_map_data least_draws 21969)))"
    using global_map_ignores_table_and_filters
      [of ?s0 ?s0 least_draws 5 0 1 "[]" None 0 "[]" 0 1 "[]" None "[]" least_draws 0] h0 miss
    by (simp del: One_nat_def)
  have "fst (global_map_data least_draws 0) \<noteq> fst (global_map_data second_draws 0)"
    using global_map_ignores_table_and_filters
      [of ?s1 ?s2 least_draws 0 0 1 "[''USA'']" None 0 "[]" 2 3 "[]" None "[]" second_draws 0] d
    by (metis zero_less_numeral)
  then show ?thesis using d s a b h1 h2 h0 hit miss by simp
qed

end
